theory Spec2Isabelle
  imports Main
begin

section \<open>The no-cache static file server\<close>

text \<open>
  The program under verification is \<^verbatim>\<open>src/server.py\<close>:
  \<^verbatim>\<open>
  from http.server import SimpleHTTPRequestHandler, HTTPServer

  class NoCacheHandler(SimpleHTTPRequestHandler):
      def end_headers(self):
          self.send_header("Cache-Control", "no-cache, no-store, must-revalidate")
          super().end_headers()

  HTTPServer(("0.0.0.0", 5000), NoCacheHandler).serve_forever()
  \<close>
  The handler overrides one method of the classes it inherits from, and every
  other method it runs is the inherited one. The inherited methods are embedded from
  CPython's \<^verbatim>\<open>Lib/http/server.py\<close> (3.12), each next to its Python text; what they
  take from the operating system or from other library modules (the file system, the
  clock, URL and date parsing, the table of reason phrases) is a field of the record
  \<open>env\<close> and is left uninterpreted.
\<close>

subsection \<open>Bytes, strings and errors\<close>

text \<open>
  A \<open>char\<close> is one byte, so a \<open>string\<close> is at once a Python \<^verbatim>\<open>bytes\<close> and a Python
  \<^verbatim>\<open>str\<close> of Latin-1 characters: \<^verbatim>\<open>s.encode('latin-1', 'strict')\<close> is the identity
  on it and cannot raise.
\<close>

type_synonym bytes = string

definition CRLF :: bytes where
  "CRLF = [CHR 0x0D, CHR 0x0A]"

text \<open>
  The exceptions of the model: reading an attribute that the object does not have, and
  \<^verbatim>\<open>socket.sendall\<close> on a connection that the peer has closed.
\<close>

datatype error = AttributeError | BrokenPipeError

text \<open>\<^verbatim>\<open>str.lower()\<close> on Latin-1 characters.\<close>

definition lower_char :: "char \<Rightarrow> char" where
  "lower_char c =
     (let n = (of_char c :: nat)
      in if (65 \<le> n \<and> n \<le> 90) \<or> (192 \<le> n \<and> n \<le> 222 \<and> n \<noteq> 215)
         then char_of (n + 32) else c)"

definition lower :: "string \<Rightarrow> string" where
  "lower s = map lower_char s"

text \<open>\<^verbatim>\<open>str(n)\<close> and the \<^verbatim>\<open>%d\<close> conversion, for a natural number.\<close>

definition digit_char :: "nat \<Rightarrow> char" where
  "digit_char d = ''0123456789'' ! d"

function str_nat :: "nat \<Rightarrow> string" where
  "str_nat n = (if n < 10 then [digit_char n] else str_nat (n div 10) @ [digit_char (n mod 10)])"
  by pat_completeness auto
termination
  by (relation "measure (\<lambda>n. n)") auto

declare str_nat.simps [simp del]

text \<open>\<^verbatim>\<open>str.endswith\<close>.\<close>

definition endswith :: "string \<Rightarrow> string \<Rightarrow> bool" where
  "endswith s suffix = (length suffix \<le> length s \<and> drop (length s - length suffix) s = suffix)"

subsection \<open>The handler object\<close>

text \<open>
  The attributes of a request handler that the methods below read or write.
  \<^item> \<open>request_version\<close> and \<open>headers_buffer\<close> (Python's \<^verbatim>\<open>_headers_buffer\<close>) are
    \<open>None\<close> while the object has no such attribute: the library tests
    \<^verbatim>\<open>hasattr(self, '_headers_buffer')\<close>, and reads \<^verbatim>\<open>self.request_version\<close> unguarded.
  \<^item> \<open>command\<close> is \<open>None\<close> for Python's \<^verbatim>\<open>None\<close>, which \<^verbatim>\<open>parse_request\<close> stores first.
  \<^item> \<open>if_modified_since\<close> and \<open>if_none_match\<close> are what \<^verbatim>\<open>self.headers\<close> holds under
    these two names, the only request headers the file-serving methods read.
  \<^item> \<open>wfile\<close> is the list of the byte strings passed to \<^verbatim>\<open>self.wfile.write\<close> so far, in
    order: \<^verbatim>\<open>wfile\<close> is unbuffered (\<^verbatim>\<open>wbufsize = 0\<close>), so each one has been handed to
    \<^verbatim>\<open>socket.sendall\<close>.
  \<^item> \<open>connected\<close> tells whether the peer still accepts bytes.
\<close>

record handler =
  request_version :: "string option"
  headers_buffer :: "bytes list option"
  close_connection :: bool
  command :: "string option"
  path :: string
  if_modified_since :: "string option"
  if_none_match :: "string option"
  wfile :: "bytes list"
  connected :: bool

text \<open>The bytes on the wire.\<close>

definition sent :: "handler \<Rightarrow> bytes" where
  "sent h = concat (wfile h)"

text \<open>
  \<^verbatim>\<open>
  def write(self, b):              # socketserver._SocketWriter
      self._sock.sendall(b)
  \<close>
\<close>

definition wfile_write :: "bytes \<Rightarrow> handler \<Rightarrow> error + handler" where
  "wfile_write b h =
     (if connected h then Inr (h\<lparr>wfile := wfile h @ [b]\<rparr>) else Inl BrokenPipeError)"

text \<open>
  Statements in sequence: each runs on the state the one before left, and the first
  exception ends the sequence.
\<close>

definition bnd :: "error + 'a \<Rightarrow> ('a \<Rightarrow> error + 'b) \<Rightarrow> error + 'b" where
  "bnd r f = (case r of Inl e \<Rightarrow> Inl e | Inr x \<Rightarrow> f x)"

fun run :: "(handler \<Rightarrow> error + handler) list \<Rightarrow> handler \<Rightarrow> error + handler" where
  "run [] h = Inr h"
| "run (stmt # stmts) h = bnd (stmt h) (run stmts)"

subsection \<open>Header methods of BaseHTTPRequestHandler\<close>

text \<open>
  \<^verbatim>\<open>
  def send_header(self, keyword, value):
      if self.request_version != 'HTTP/0.9':
          if not hasattr(self, '_headers_buffer'):
              self._headers_buffer = []
          self._headers_buffer.append(
              ("%s: %s\r\n" % (keyword, value)).encode('latin-1', 'strict'))

      if keyword.lower() == 'connection':
          if value.lower() == 'close':
              self.close_connection = True
          elif value.lower() == 'keep-alive':
              self.close_connection = False
  \<close>
\<close>

definition buffer_or_empty :: "handler \<Rightarrow> bytes list" where
  "buffer_or_empty h = (case headers_buffer h of None \<Rightarrow> [] | Some b \<Rightarrow> b)"

definition header_line :: "string \<Rightarrow> string \<Rightarrow> bytes" where
  "header_line keyword val = keyword @ '': '' @ val @ CRLF"

definition send_header :: "string \<Rightarrow> string \<Rightarrow> handler \<Rightarrow> error + handler" where
  "send_header keyword val h =
     (case request_version h of
        None \<Rightarrow> Inl AttributeError
      | Some v \<Rightarrow>
          let h1 = (if v \<noteq> ''HTTP/0.9''
                    then h\<lparr>headers_buffer :=
                             Some (buffer_or_empty h @ [header_line keyword val])\<rparr>
                    else h)
          in Inr (if lower keyword = ''connection''
                  then (if lower val = ''close'' then h1\<lparr>close_connection := True\<rparr>
                        else if lower val = ''keep-alive'' then h1\<lparr>close_connection := False\<rparr>
                        else h1)
                  else h1))"

text \<open>
  \<^verbatim>\<open>
  def flush_headers(self):
      if hasattr(self, '_headers_buffer'):
          self.wfile.write(b"".join(self._headers_buffer))
          self._headers_buffer = []
  \<close>
\<close>

definition flush_headers :: "handler \<Rightarrow> error + handler" where
  "flush_headers h =
     (case headers_buffer h of
        None \<Rightarrow> Inr h
      | Some b \<Rightarrow> bnd (wfile_write (concat b) h) (\<lambda>h'. Inr (h'\<lparr>headers_buffer := Some []\<rparr>)))"

text \<open>
  \<^verbatim>\<open>
  def end_headers(self):           # BaseHTTPRequestHandler
      if self.request_version != 'HTTP/0.9':
          self._headers_buffer.append(b"\r\n")
          self.flush_headers()
  \<close>
  Here \<^verbatim>\<open>self._headers_buffer\<close> is read without a test.
\<close>

definition BaseHTTPRequestHandler_end_headers :: "handler \<Rightarrow> error + handler" where
  "BaseHTTPRequestHandler_end_headers h =
     (case request_version h of
        None \<Rightarrow> Inl AttributeError
      | Some v \<Rightarrow>
          if v \<noteq> ''HTTP/0.9''
          then (case headers_buffer h of
                  None \<Rightarrow> Inl AttributeError
                | Some b \<Rightarrow> flush_headers (h\<lparr>headers_buffer := Some (b @ [CRLF])\<rparr>))
          else Inr h)"

subsection \<open>NoCacheHandler\<close>

text \<open>
  \<^verbatim>\<open>
  class NoCacheHandler(SimpleHTTPRequestHandler):
      def end_headers(self):
          self.send_header("Cache-Control", "no-cache, no-store, must-revalidate")
          super().end_headers()
  \<close>
  \<^verbatim>\<open>SimpleHTTPRequestHandler\<close> defines no \<^verbatim>\<open>end_headers\<close> of its own, so
  \<^verbatim>\<open>super().end_headers\<close> is the method of \<^verbatim>\<open>BaseHTTPRequestHandler\<close>.
\<close>

definition NoCacheHandler_end_headers :: "handler \<Rightarrow> error + handler" where
  "NoCacheHandler_end_headers h =
     run [send_header ''Cache-Control'' ''no-cache, no-store, must-revalidate'',
          BaseHTTPRequestHandler_end_headers] h"

text \<open>
  The class of the handler object decides which method \<^verbatim>\<open>self.end_headers()\<close> calls.
\<close>

datatype handler_class = SimpleHTTPRequestHandler | NoCacheHandler

fun end_headers :: "handler_class \<Rightarrow> handler \<Rightarrow> error + handler" where
  "end_headers SimpleHTTPRequestHandler h = BaseHTTPRequestHandler_end_headers h"
| "end_headers NoCacheHandler h = NoCacheHandler_end_headers h"

text \<open>The header line that the override sends.\<close>

definition cache_control_line :: bytes where
  "cache_control_line = header_line ''Cache-Control'' ''no-cache, no-store, must-revalidate''"

subsection \<open>What the handler takes from its environment\<close>

text \<open>
  The values that the inherited methods obtain from the operating system and from other
  library modules, at the time one request is handled.
  \<^item> \<open>responses\<close>: the class attribute \<^verbatim>\<open>responses\<close>, from status code to reason phrase
    and long description;
  \<^item> \<open>version_string\<close>, \<open>date_time_string\<close>: the results of the methods of these names;
  \<^item> \<open>error_content\<close>: the error page, \<^verbatim>\<open>error_message_format\<close> filled in with the code
    and the escaped message and explanation, encoded as UTF-8;
  \<^item> \<open>repr_str\<close>: the \<^verbatim>\<open>%r\<close> conversion of a string;
  \<^item> \<open>translate_path\<close>: the method of this name, from the request path to a path below
    \<^verbatim>\<open>self.directory\<close>;
  \<^item> \<open>isdir\<close>, \<open>isfile\<close>: \<^verbatim>\<open>os.path.isdir\<close>, \<^verbatim>\<open>os.path.isfile\<close>;
  \<^item> \<open>open_rb\<close>: the contents of the file that \<^verbatim>\<open>open(path, 'rb')\<close> opens, \<open>None\<close> when it
    raises \<^verbatim>\<open>OSError\<close>; the size that \<^verbatim>\<open>os.fstat\<close> reports is the length of these
    contents;
  \<^item> \<open>url_path\<close>: \<^verbatim>\<open>urllib.parse.urlsplit(p).path\<close>; \<open>redirect_url\<close>: the same URL with
    \<^verbatim>\<open>/\<close> appended to its path;
  \<^item> \<open>guess_type\<close>: the method of this name;
  \<^item> \<open>not_modified\<close>: for the value of an \<^verbatim>\<open>If-Modified-Since\<close> header and a path,
    whether the value parses as a date in UTC and the file was last modified at or before
    that date;
  \<^item> \<open>last_modified\<close>: \<^verbatim>\<open>self.date_time_string(fs.st_mtime)\<close> for the file at a path;
  \<^item> \<open>listing\<close>: for a directory path and the request path, the encoded listing page that
    \<^verbatim>\<open>list_directory\<close> builds, \<open>None\<close> when \<^verbatim>\<open>os.listdir\<close> raises \<^verbatim>\<open>OSError\<close>;
  \<^item> \<open>filesystem_encoding\<close>: \<^verbatim>\<open>sys.getfilesystemencoding()\<close>.
\<close>

record env =
  responses :: "nat \<Rightarrow> (string \<times> string) option"
  version_string :: string
  date_time_string :: string
  error_content :: "nat \<Rightarrow> string \<Rightarrow> string \<Rightarrow> bytes"
  repr_str :: "string \<Rightarrow> string"
  translate_path :: "string \<Rightarrow> string"
  isdir :: "string \<Rightarrow> bool"
  isfile :: "string \<Rightarrow> bool"
  open_rb :: "string \<Rightarrow> bytes option"
  url_path :: "string \<Rightarrow> string"
  redirect_url :: "string \<Rightarrow> string"
  guess_type :: "string \<Rightarrow> string"
  not_modified :: "string \<Rightarrow> string \<Rightarrow> bool"
  last_modified :: "string \<Rightarrow> string"
  listing :: "string \<Rightarrow> string \<Rightarrow> bytes option"
  filesystem_encoding :: string

text \<open>Class attributes that the handler classes leave at their defaults.\<close>

definition protocol_version :: string where
  "protocol_version = ''HTTP/1.0''"

definition error_content_type :: string where
  "error_content_type = ''text/html;charset=utf-8''"

definition index_pages :: "string list" where
  "index_pages = [''index.html'', ''index.htm'']"

subsection \<open>Response methods of BaseHTTPRequestHandler\<close>

text \<open>
  \<^verbatim>\<open>
  def send_response_only(self, code, message=None):
      if self.request_version != 'HTTP/0.9':
          if message is None:
              if code in self.responses:
                  message = self.responses[code][0]
              else:
                  message = ''
          if not hasattr(self, '_headers_buffer'):
              self._headers_buffer = []
          self._headers_buffer.append(("%s %d %s\r\n" %
                  (self.protocol_version, code, message)).encode(
                      'latin-1', 'strict'))
  \<close>
\<close>

definition status_line :: "nat \<Rightarrow> string \<Rightarrow> bytes" where
  "status_line code message =
     protocol_version @ '' '' @ str_nat code @ '' '' @ message @ CRLF"

definition send_response_only ::
  "env \<Rightarrow> nat \<Rightarrow> string option \<Rightarrow> handler \<Rightarrow> error + handler" where
  "send_response_only E code message h =
     (case request_version h of
        None \<Rightarrow> Inl AttributeError
      | Some v \<Rightarrow>
          if v \<noteq> ''HTTP/0.9''
          then let message' = (case message of
                                 Some m \<Rightarrow> m
                               | None \<Rightarrow> (case responses E code of
                                            Some (phrase, description) \<Rightarrow> phrase
                                          | None \<Rightarrow> []))
               in Inr (h\<lparr>headers_buffer :=
                          Some (buffer_or_empty h @ [status_line code message'])\<rparr>)
          else Inr h)"

text \<open>
  \<^verbatim>\<open>
  def send_response(self, code, message=None):
      self.log_request(code)
      self.send_response_only(code, message)
      self.send_header('Server', self.version_string())
      self.send_header('Date', self.date_time_string())
  \<close>
  The log methods write to \<^verbatim>\<open>sys.stderr\<close> and touch neither the handler nor the
  connection; they are left out here and below.
\<close>

definition send_response ::
  "env \<Rightarrow> nat \<Rightarrow> string option \<Rightarrow> handler \<Rightarrow> error + handler" where
  "send_response E code message h =
     run [send_response_only E code message,
          send_header ''Server'' (version_string E),
          send_header ''Date'' (date_time_string E)] h"

text \<open>
  \<^verbatim>\<open>
  def send_error(self, code, message=None, explain=None):
      try:
          shortmsg, longmsg = self.responses[code]
      except KeyError:
          shortmsg, longmsg = '???', '???'
      if message is None:
          message = shortmsg
      if explain is None:
          explain = longmsg
      self.log_error("code %d, message %s", code, message)
      self.send_response(code, message)
      self.send_header('Connection', 'close')

      body = None
      if (code >= 200 and
          code not in (HTTPStatus.NO_CONTENT,
                       HTTPStatus.RESET_CONTENT,
                       HTTPStatus.NOT_MODIFIED)):
          content = (self.error_message_format % {
              'code': code,
              'message': html.escape(message, quote=False),
              'explain': html.escape(explain, quote=False)
          })
          body = content.encode('UTF-8', 'replace')
          self.send_header("Content-Type", self.error_content_type)
          self.send_header('Content-Length', str(len(body)))
      self.end_headers()

      if self.command != 'HEAD' and body:
          self.wfile.write(body)
  \<close>
\<close>

definition send_error ::
  "handler_class \<Rightarrow> env \<Rightarrow> nat \<Rightarrow> string option \<Rightarrow> string option \<Rightarrow> handler
     \<Rightarrow> error + handler" where
  "send_error cls E code message explain h =
     (let (shortmsg, longmsg) =
            (case responses E code of Some p \<Rightarrow> p | None \<Rightarrow> (''???'', ''???''));
          message' = (case message of None \<Rightarrow> shortmsg | Some m \<Rightarrow> m);
          explain' = (case explain of None \<Rightarrow> longmsg | Some x \<Rightarrow> x);
          body = (if code \<ge> 200 \<and> code \<notin> {204, 205, 304}
                  then Some (error_content E code message' explain') else None)
      in run ([send_response E code (Some message'),
               send_header ''Connection'' ''close'']
              @ (case body of
                   None \<Rightarrow> []
                 | Some b \<Rightarrow> [send_header ''Content-Type'' error_content_type,
                              send_header ''Content-Length'' (str_nat (length b))])
              @ [end_headers cls,
                 (\<lambda>h'. case body of
                          None \<Rightarrow> Inr h'
                        | Some b \<Rightarrow> if command h' \<noteq> Some ''HEAD'' \<and> b \<noteq> []
                                    then wfile_write b h' else Inr h')]) h)"

subsection \<open>File-serving methods of SimpleHTTPRequestHandler\<close>

text \<open>
  \<^verbatim>\<open>
  def join(a, *p):                 # posixpath
      sep = '/'
      path = a
      for b in p:
          if b.startswith(sep):
              path = b
          elif not path or path.endswith(sep):
              path += b
          else:
              path += sep + b
      return path
  \<close>
\<close>

definition os_path_join :: "string \<Rightarrow> string \<Rightarrow> string" where
  "os_path_join a b =
     (if take 1 b = ''/'' then b
      else if a = [] \<or> endswith a ''/'' then a @ b
      else a @ ''/'' @ b)"

text \<open>
  \<^verbatim>\<open>
  def list_directory(self, path):
      try:
          list = os.listdir(path)
      except OSError:
          self.send_error(
              HTTPStatus.NOT_FOUND,
              "No permission to list directory")
          return None
      ...                          # builds the page from list and self.path
      encoded = '\n'.join(r).encode(enc, 'surrogateescape')
      f = io.BytesIO()
      f.write(encoded)
      f.seek(0)
      self.send_response(HTTPStatus.OK)
      self.send_header("Content-type", "text/html; charset=%s" % enc)
      self.send_header("Content-Length", str(len(encoded)))
      self.end_headers()
      return f
  \<close>
  A method that returns a file object or \<^verbatim>\<open>None\<close> returns, in the model, the bytes that
  reading the file object to its end gives, or \<open>None\<close>.
\<close>

definition list_directory ::
  "handler_class \<Rightarrow> env \<Rightarrow> string \<Rightarrow> handler \<Rightarrow> error + (handler \<times> bytes option)" where
  "list_directory cls E p h =
     (case listing E p (path h) of
        None \<Rightarrow>
          bnd (send_error cls E 404 (Some ''No permission to list directory'') None h)
            (\<lambda>h'. Inr (h', None))
      | Some encoded \<Rightarrow>
          bnd (run [send_response E 200 None,
                    send_header ''Content-type''
                      (''text/html; charset='' @ filesystem_encoding E),
                    send_header ''Content-Length'' (str_nat (length encoded)),
                    end_headers cls] h)
            (\<lambda>h'. Inr (h', Some encoded)))"

text \<open>
  \<^verbatim>\<open>
  def send_head(self):
      path = self.translate_path(self.path)
      f = None
      if os.path.isdir(path):
          parts = urllib.parse.urlsplit(self.path)
          if not parts.path.endswith('/'):
              self.send_response(HTTPStatus.MOVED_PERMANENTLY)
              new_parts = (parts[0], parts[1], parts[2] + '/',
                           parts[3], parts[4])
              new_url = urllib.parse.urlunsplit(new_parts)
              self.send_header("Location", new_url)
              self.send_header("Content-Length", "0")
              self.end_headers()
              return None
          for index in self.index_pages:
              index = os.path.join(path, index)
              if os.path.isfile(index):
                  path = index
                  break
          else:
              return self.list_directory(path)
      ctype = self.guess_type(path)
      if path.endswith("/"):
          self.send_error(HTTPStatus.NOT_FOUND, "File not found")
          return None
      try:
          f = open(path, 'rb')
      except OSError:
          self.send_error(HTTPStatus.NOT_FOUND, "File not found")
          return None

      try:
          fs = os.fstat(f.fileno())
          if ("If-Modified-Since" in self.headers
                  and "If-None-Match" not in self.headers):
              try:
                  ims = email.utils.parsedate_to_datetime(
                      self.headers["If-Modified-Since"])
              except (TypeError, IndexError, OverflowError, ValueError):
                  pass
              else:
                  if ims.tzinfo is None:
                      ims = ims.replace(tzinfo=datetime.timezone.utc)
                  if ims.tzinfo is datetime.timezone.utc:
                      last_modif = datetime.datetime.fromtimestamp(
                          fs.st_mtime, datetime.timezone.utc)
                      last_modif = last_modif.replace(microsecond=0)

                      if last_modif <= ims:
                          self.send_response(HTTPStatus.NOT_MODIFIED)
                          self.end_headers()
                          f.close()
                          return None

          self.send_response(HTTPStatus.OK)
          self.send_header("Content-type", ctype)
          self.send_header("Content-Length", str(fs[6]))
          self.send_header("Last-Modified",
              self.date_time_string(fs.st_mtime))
          self.end_headers()
          return f
      except:
          f.close()
          raise
  \<close>
  The part from \<^verbatim>\<open>ctype = self.guess_type(path)\<close> on, which runs on the path of the file
  or of the index page found, is \<open>send_head_file\<close>.
\<close>

text \<open>
  The test of the block that \<^verbatim>\<open>send_head\<close> introduces with
  \<^verbatim>\<open># Use browser cache if possible\<close>.
\<close>

definition use_browser_cache :: "env \<Rightarrow> handler \<Rightarrow> string \<Rightarrow> bool" where
  "use_browser_cache E h p =
     (case if_modified_since h of
        None \<Rightarrow> False
      | Some ims \<Rightarrow> if_none_match h = None \<and> not_modified E ims p)"

definition send_head_file ::
  "handler_class \<Rightarrow> env \<Rightarrow> string \<Rightarrow> handler \<Rightarrow> error + (handler \<times> bytes option)" where
  "send_head_file cls E p h =
     (let ctype = guess_type E p
      in if endswith p ''/''
         then bnd (send_error cls E 404 (Some ''File not found'') None h)
                (\<lambda>h'. Inr (h', None))
         else (case open_rb E p of
                 None \<Rightarrow>
                   bnd (send_error cls E 404 (Some ''File not found'') None h)
                     (\<lambda>h'. Inr (h', None))
               | Some contents \<Rightarrow>
                   if use_browser_cache E h p
                   then bnd (run [send_response E 304 None, end_headers cls] h)
                          (\<lambda>h'. Inr (h', None))
                   else bnd (run [send_response E 200 None,
                                  send_header ''Content-type'' ctype,
                                  send_header ''Content-Length'' (str_nat (length contents)),
                                  send_header ''Last-Modified'' (last_modified E p),
                                  end_headers cls] h)
                          (\<lambda>h'. Inr (h', Some contents))))"

definition send_head ::
  "handler_class \<Rightarrow> env \<Rightarrow> handler \<Rightarrow> error + (handler \<times> bytes option)" where
  "send_head cls E h =
     (let p = translate_path E (path h)
      in if isdir E p
         then if \<not> endswith (url_path E (path h)) ''/''
              then bnd (run [send_response E 301 None,
                             send_header ''Location'' (redirect_url E (path h)),
                             send_header ''Content-Length'' ''0'',
                             end_headers cls] h)
                     (\<lambda>h'. Inr (h', None))
              else (case find (isfile E) (map (os_path_join p) index_pages) of
                      Some index \<Rightarrow> send_head_file cls E index h
                    | None \<Rightarrow> list_directory cls E p h)
         else send_head_file cls E p h)"

text \<open>
  \<^verbatim>\<open>
  COPY_BUFSIZE = 1024 * 1024 if _WINDOWS else 64 * 1024

  def copyfileobj(fsrc, fdst, length=0):       # shutil
      if not length:
          length = COPY_BUFSIZE
      fsrc_read = fsrc.read
      fdst_write = fdst.write
      while buf := fsrc_read(length):
          fdst_write(buf)

  def copyfile(self, source, outputfile):
      shutil.copyfileobj(source, outputfile)
  \<close>
  The first argument of the model is what is left to read of the source.
\<close>

definition COPY_BUFSIZE :: nat where
  "COPY_BUFSIZE = 64 * 1024"

function copyfile :: "bytes \<Rightarrow> handler \<Rightarrow> error + handler" where
  "copyfile source h =
     (let buf = take COPY_BUFSIZE source
      in if buf = [] then Inr h
         else bnd (wfile_write buf h) (copyfile (drop COPY_BUFSIZE source)))"
  by pat_completeness auto
termination
  by (relation "measure (\<lambda>(source, h). length source)") (auto simp: COPY_BUFSIZE_def)

declare copyfile.simps [simp del]

text \<open>
  \<^verbatim>\<open>
  def do_GET(self):
      f = self.send_head()
      if f:
          try:
              self.copyfile(f, self.wfile)
          finally:
              f.close()

  def do_HEAD(self):
      f = self.send_head()
      if f:
          f.close()
  \<close>
\<close>

definition do_GET :: "handler_class \<Rightarrow> env \<Rightarrow> handler \<Rightarrow> error + handler" where
  "do_GET cls E h =
     bnd (send_head cls E h)
       (\<lambda>(h', f). case f of None \<Rightarrow> Inr h' | Some source \<Rightarrow> copyfile source h')"

definition do_HEAD :: "handler_class \<Rightarrow> env \<Rightarrow> handler \<Rightarrow> error + handler" where
  "do_HEAD cls E h = bnd (send_head cls E h) (\<lambda>(h', f). Inr h')"

subsection \<open>One request\<close>

text \<open>
  What \<^verbatim>\<open>handle_one_request\<close> reads from the connection, after \<^verbatim>\<open>parse_request\<close> has
  split the request line and parsed the headers:
  \<^item> \<open>RequestLineTooLong\<close>: the request line has more than 65536 bytes;
  \<^item> \<open>NoRequestLine\<close>: the peer sent nothing more;
  \<^item> \<open>BlankRequestLine\<close>: the request line has no word, and \<^verbatim>\<open>parse_request\<close> returns
    \<^verbatim>\<open>False\<close> without a response;
  \<^item> \<open>ParseError c v code message explain\<close>: \<^verbatim>\<open>parse_request\<close> called
    \<^verbatim>\<open>self.send_error(code, message, explain)\<close> and returned \<^verbatim>\<open>False\<close>, while
    \<^verbatim>\<open>self.command\<close> was \<open>c\<close> and \<^verbatim>\<open>self.request_version\<close> was \<open>v\<close>
    (\<^verbatim>\<open>default_request_version = "HTTP/0.9"\<close> until the version of the request line has
    been accepted);
  \<^item> \<open>Request r\<close>: \<^verbatim>\<open>parse_request\<close> returned \<^verbatim>\<open>True\<close> and left the fields of \<open>r\<close> in
    \<^verbatim>\<open>self.command\<close>, \<^verbatim>\<open>self.path\<close>, \<^verbatim>\<open>self.request_version\<close> and \<^verbatim>\<open>self.headers\<close>. A
    request line of two words leaves the version \<^verbatim>\<open>HTTP/0.9\<close>, one of three words its
    third word.
  With \<^verbatim>\<open>protocol_version = "HTTP/1.0"\<close>, \<^verbatim>\<open>parse_request\<close> leaves \<^verbatim>\<open>close_connection\<close>
  true whatever the request says, and does not answer \<^verbatim>\<open>Expect: 100-continue\<close>.
\<close>

record parsed_request =
  rq_command :: string
  rq_path :: string
  rq_version :: string
  rq_if_modified_since :: "string option"
  rq_if_none_match :: "string option"

datatype request =
    RequestLineTooLong
  | NoRequestLine
  | BlankRequestLine
  | ParseError "string option" string nat string "string option"
  | Request parsed_request

text \<open>
  \<^verbatim>\<open>
  def handle_one_request(self):
      try:
          self.raw_requestline = self.rfile.readline(65537)
          if len(self.raw_requestline) > 65536:
              self.requestline = ''
              self.request_version = ''
              self.command = ''
              self.send_error(HTTPStatus.REQUEST_URI_TOO_LONG)
              return
          if not self.raw_requestline:
              self.close_connection = True
              return
          if not self.parse_request():
              return
          mname = 'do_' + self.command
          if not hasattr(self, mname):
              self.send_error(
                  HTTPStatus.NOT_IMPLEMENTED,
                  "Unsupported method (%r)" % self.command)
              return
          method = getattr(self, mname)
          method()
          self.wfile.flush()
      except TimeoutError as e:
          self.log_error("Request timed out: %r", e)
          self.close_connection = True
          return
  \<close>
  The handler classes have the methods \<^verbatim>\<open>do_GET\<close> and \<^verbatim>\<open>do_HEAD\<close> and no other
  attribute whose name starts with \<^verbatim>\<open>do_\<close>; \<^verbatim>\<open>flush\<close> does nothing on the unbuffered
  \<^verbatim>\<open>wfile\<close>.
\<close>

definition parse_request_ok :: "parsed_request \<Rightarrow> handler \<Rightarrow> handler" where
  "parse_request_ok r h =
     h\<lparr>command := Some (rq_command r),
       path := rq_path r,
       request_version := Some (rq_version r),
       close_connection := True,
       if_modified_since := rq_if_modified_since r,
       if_none_match := rq_if_none_match r\<rparr>"

definition handle_one_request ::
  "handler_class \<Rightarrow> env \<Rightarrow> request \<Rightarrow> handler \<Rightarrow> error + handler" where
  "handle_one_request cls E rq h =
     (case rq of
        RequestLineTooLong \<Rightarrow>
          send_error cls E 414 None None (h\<lparr>request_version := Some [], command := Some []\<rparr>)
      | NoRequestLine \<Rightarrow> Inr (h\<lparr>close_connection := True\<rparr>)
      | BlankRequestLine \<Rightarrow>
          Inr (h\<lparr>command := None, request_version := Some ''HTTP/0.9'',
                 close_connection := True\<rparr>)
      | ParseError c v code message explain \<Rightarrow>
          send_error cls E code (Some message) explain
            (h\<lparr>command := c, request_version := Some v, close_connection := True\<rparr>)
      | Request r \<Rightarrow>
          let h1 = parse_request_ok r h
          in if rq_command r = ''GET'' then do_GET cls E h1
             else if rq_command r = ''HEAD'' then do_HEAD cls E h1
             else send_error cls E 501
                    (Some (''Unsupported method ('' @ repr_str E (rq_command r) @ '')''))
                    None h1)"

subsection \<open>One connection, and the server\<close>

text \<open>
  \<^verbatim>\<open>
  def handle(self):
      self.close_connection = True

      self.handle_one_request()
      while not self.close_connection:
          self.handle_one_request()
  \<close>
  The second argument lists what the connection still delivers; after the last entry
  the peer sends nothing more.
\<close>

fun handle_loop :: "handler_class \<Rightarrow> env \<Rightarrow> request list \<Rightarrow> handler \<Rightarrow> error + handler" where
  "handle_loop cls E [] h = handle_one_request cls E NoRequestLine h"
| "handle_loop cls E (rq # rqs) h =
     bnd (handle_one_request cls E rq h)
       (\<lambda>h'. if \<not> close_connection h' then handle_loop cls E rqs h' else Inr h')"

definition handle :: "handler_class \<Rightarrow> env \<Rightarrow> request list \<Rightarrow> handler \<Rightarrow> error + handler" where
  "handle cls E rqs h = handle_loop cls E rqs (h\<lparr>close_connection := True\<rparr>)"

text \<open>
  The server makes one handler object per accepted connection
  (\<^verbatim>\<open>self.RequestHandlerClass(request, client_address, self)\<close> in
  \<^verbatim>\<open>socketserver.BaseServer.finish_request\<close>), whose constructor sets up \<^verbatim>\<open>wfile\<close> and
  calls \<^verbatim>\<open>handle\<close>. A new object has neither \<^verbatim>\<open>request_version\<close> nor
  \<^verbatim>\<open>_headers_buffer\<close>, and nothing has been written to its connection.
\<close>

definition new_handler :: "bool \<Rightarrow> handler" where
  "new_handler c =
     \<lparr>request_version = None, headers_buffer = None, close_connection = True,
      command = None, path = [], if_modified_since = None, if_none_match = None,
      wfile = [], connected = c\<rparr>"

definition finish_request :: "handler_class \<Rightarrow> env \<Rightarrow> request list \<Rightarrow> error + handler" where
  "finish_request cls E rqs = handle cls E rqs (new_handler True)"

text \<open>
  \<^verbatim>\<open>
  HTTPServer(("0.0.0.0", 5000), NoCacheHandler).serve_forever()
  \<close>
  with, in \<^verbatim>\<open>socketserver.TCPServer\<close>,
  \<^verbatim>\<open>
  address_family = socket.AF_INET
  socket_type = socket.SOCK_STREAM

  def __init__(self, server_address, RequestHandlerClass, bind_and_activate=True):
      BaseServer.__init__(self, server_address, RequestHandlerClass)
      self.socket = socket.socket(self.address_family, self.socket_type)
      if bind_and_activate:
          self.server_bind()       # self.socket.bind(self.server_address)
          self.server_activate()   # self.socket.listen(self.request_queue_size)
  \<close>
  and, in \<^verbatim>\<open>SimpleHTTPRequestHandler\<close>,
  \<^verbatim>\<open>
  def __init__(self, *args, directory=None, **kwargs):
      if directory is None:
          directory = os.getcwd()
      self.directory = os.fspath(directory)
      super().__init__(*args, **kwargs)
  \<close>
  A process is what the program could read at startup: its arguments, its environment
  variables and its working directory.
\<close>

record process =
  argv :: "string list"
  environ :: "(string \<times> string) list"
  cwd :: string

datatype address_family = AF_INET | AF_INET6 | AF_UNIX

datatype socket_type = SOCK_STREAM | SOCK_DGRAM

record server =
  server_address :: "string \<times> nat"
  RequestHandlerClass :: handler_class
  server_address_family :: address_family
  server_socket_type :: socket_type





section \<open>Notions used in the statements\<close>








text \<open>
  Whether the responses of a handler have a header block: \<^verbatim>\<open>self.request_version\<close> is set
  and is not \<^verbatim>\<open>'HTTP/0.9'\<close>, the test of \<^verbatim>\<open>send_response_only\<close>, \<^verbatim>\<open>send_header\<close> and
  \<^verbatim>\<open>end_headers\<close>.
\<close>

definition sends_headers :: "handler \<Rightarrow> bool" where
  "sends_headers h = (case request_version h of None \<Rightarrow> False | Some v \<Rightarrow> v \<noteq> ''HTTP/0.9'')"

text \<open>The header lines that the \<^verbatim>\<open>end_headers\<close> of a class puts after those buffered so far.\<close>

definition added_header :: "handler_class \<Rightarrow> bytes list" where
  "added_header cls =
     (case cls of SimpleHTTPRequestHandler \<Rightarrow> [] | NoCacheHandler \<Rightarrow> [cache_control_line])"

text \<open>
  The header block that \<^verbatim>\<open>end_headers\<close> writes when the lines \<open>ls\<close> have been buffered
  since the handler was in state \<open>h\<close>: what the buffer held, the lines, the line that the
  class adds, and the blank line.
\<close>

definition block :: "handler_class \<Rightarrow> handler \<Rightarrow> bytes list \<Rightarrow> bytes" where
  "block cls h ls = concat (buffer_or_empty h @ ls @ added_header cls) @ CRLF"






text \<open>The handler holds what \<^verbatim>\<open>parse_request\<close> stores for the request \<open>r\<close>.\<close>

definition same_request :: "parsed_request \<Rightarrow> handler \<Rightarrow> bool" where
  "same_request r h =
     (command h = Some (rq_command r) \<and> path h = rq_path r \<and>
      if_modified_since h = rq_if_modified_since r \<and> if_none_match h = rq_if_none_match r)"

section \<open>A server root with one file\<close>

text \<open>
  The scenario of the specification: the server root holds \<^verbatim>\<open>index.html\<close> with the
  content \<^verbatim>\<open><h1>hi</h1>\<close> and nothing else. The root is \<^verbatim>\<open>/srv\<close>; the request paths
  of the examples have no query, no escape and no dot segment, so that the translated
  path is the root followed by the request path.
\<close>

definition example_responses :: "nat \<Rightarrow> (string \<times> string) option" where
  "example_responses code =
     (if code = 200 then Some (''OK'', ''Request fulfilled, document follows'')
      else if code = 301 then Some (''Moved Permanently'', ''Object moved permanently -- see URI list'')
      else if code = 304 then Some (''Not Modified'', ''Document has not changed since given time'')
      else if code = 400 then Some (''Bad Request'', ''Bad request syntax or unsupported method'')
      else if code = 404 then Some (''Not Found'', ''Nothing matches the given URI'')
      else if code = 414 then Some (''Request-URI Too Long'', ''URI is too long'')
      else if code = 501 then Some (''Not Implemented'', ''Server does not support this operation'')
      else None)"

definition example_error_content :: "nat \<Rightarrow> string \<Rightarrow> string \<Rightarrow> bytes" where
  "example_error_content code message explain =
     ''<h1>Error response</h1><p>Error code: '' @ str_nat code @ ''</p><p>Message: ''
       @ message @ ''.</p><p>Error code explanation: '' @ str_nat code @ '' - ''
       @ explain @ ''.</p>''"

definition example_env :: env where
  "example_env =
     \<lparr>responses = example_responses,
      version_string = ''SimpleHTTP/0.6 Python/3.12.3'',
      date_time_string = ''Wed, 04 Nov 2026 09:00:00 GMT'',
      error_content = example_error_content,
      repr_str = (\<lambda>s. [CHR 0x27] @ s @ [CHR 0x27]),
      translate_path = (\<lambda>p. ''/srv'' @ p),
      isdir = (\<lambda>p. p = ''/srv'' \<or> p = ''/srv/''),
      isfile = (\<lambda>p. p = ''/srv/index.html''),
      open_rb = (\<lambda>p. if p = ''/srv/index.html'' then Some ''<h1>hi</h1>'' else None),
      url_path = (\<lambda>p. p),
      redirect_url = (\<lambda>p. p @ ''/''),
      guess_type = (\<lambda>p. if endswith p ''.html'' then ''text/html''
                         else ''application/octet-stream''),
      not_modified = (\<lambda>ims p. ims = ''Tue, 03 Nov 2026 12:00:00 GMT''),
      last_modified = (\<lambda>p. ''Tue, 03 Nov 2026 12:00:00 GMT''),
      listing = (\<lambda>p request_path.
                   if p = ''/srv'' \<or> p = ''/srv/''
                   then Some ''<ul><li><a href=index.html>index.html</a></li></ul>''
                   else None),
      filesystem_encoding = ''utf-8''\<rparr>"

text \<open>
  Requests as \<^verbatim>\<open>parse_request\<close> leaves them: \<^verbatim>\<open>GET /index.html HTTP/1.1\<close>, the same
  with an \<^verbatim>\<open>If-Modified-Since\<close> header that names the time the file was last modified,
  \<^verbatim>\<open>GET /missing.txt HTTP/1.1\<close>, and the request lines of two words
  \<^verbatim>\<open>GET /index.html\<close>, \<^verbatim>\<open>GET /missing.txt\<close> and \<^verbatim>\<open>GET /\<close>, which leave the version
  \<^verbatim>\<open>HTTP/0.9\<close>.
\<close>

definition get_index :: parsed_request where
  "get_index =
     \<lparr>rq_command = ''GET'', rq_path = ''/index.html'', rq_version = ''HTTP/1.1'',
      rq_if_modified_since = None, rq_if_none_match = None\<rparr>"

definition get_index_if_modified :: parsed_request where
  "get_index_if_modified =
     get_index\<lparr>rq_if_modified_since := Some ''Tue, 03 Nov 2026 12:00:00 GMT''\<rparr>"

definition get_missing :: parsed_request where
  "get_missing = get_index\<lparr>rq_path := ''/missing.txt''\<rparr>"

definition get_index_09 :: parsed_request where
  "get_index_09 = get_index\<lparr>rq_version := ''HTTP/0.9''\<rparr>"

definition get_missing_09 :: parsed_request where
  "get_missing_09 = get_missing\<lparr>rq_version := ''HTTP/0.9''\<rparr>"

definition get_root_09 :: parsed_request where
  "get_root_09 = get_index_09\<lparr>rq_path := ''/''\<rparr>"

text \<open>
  The handler after \<^verbatim>\<open>parse_request\<close> has read \<^verbatim>\<open>GET /index.html HTTP/1.1\<close> and
  \<^verbatim>\<open>send_response(200)\<close> has buffered the status line and two headers, on a connection
  that is open, and on one that the peer has closed.
\<close>

definition example_handler :: "bool \<Rightarrow> handler" where
  "example_handler c =
     (parse_request_ok get_index (new_handler c))
       \<lparr>headers_buffer :=
          Some [status_line 200 ''OK'',
                header_line ''Server'' ''SimpleHTTP/0.6 Python/3.12.3'',
                header_line ''Date'' ''Wed, 04 Nov 2026 09:00:00 GMT'']\<rparr>"

definition example_process :: process where
  "example_process =
     \<lparr>argv = [''server.py'', ''--port'', ''8080''],
      environ = [(''PORT'', ''8080''), (''HOST'', ''127.0.0.1'')],
      cwd = ''/srv''\<rparr>"

section \<open>Closed forms of the methods\<close>

lemma lower_Cache_Control: "lower ''Cache-Control'' \<noteq> ''connection''" by code_simp


lemma send_header_Cache_Control:
  "send_header ''Cache-Control'' ''no-cache, no-store, must-revalidate'' h =
     (case request_version h of
        None \<Rightarrow> Inl AttributeError
      | Some v \<Rightarrow>
          Inr (if v = ''HTTP/0.9'' then h
               else h\<lparr>headers_buffer := Some (buffer_or_empty h @ [cache_control_line])\<rparr>))"
  by (simp add: send_header_def cache_control_line_def lower_Cache_Control Let_def
      split: option.splits)

lemma BaseHTTPRequestHandler_end_headers_eq:
  "BaseHTTPRequestHandler_end_headers h =
     (case request_version h of
        None \<Rightarrow> Inl AttributeError
      | Some v \<Rightarrow>
          if v = ''HTTP/0.9'' then Inr h
          else (case headers_buffer h of
                  None \<Rightarrow> Inl AttributeError
                | Some b \<Rightarrow>
                    if connected h
                    then Inr (h\<lparr>headers_buffer := Some [],
                               wfile := wfile h @ [concat b @ CRLF]\<rparr>)
                    else Inl BrokenPipeError))"
  by (simp add: BaseHTTPRequestHandler_end_headers_def flush_headers_def wfile_write_def
      bnd_def split: option.splits)

lemma NoCacheHandler_end_headers_eq:
  "NoCacheHandler_end_headers h =
     (case request_version h of
        None \<Rightarrow> Inl AttributeError
      | Some v \<Rightarrow>
          if v = ''HTTP/0.9'' then Inr h
          else if connected h
               then Inr (h\<lparr>headers_buffer := Some [],
                          wfile := wfile h @ [concat (buffer_or_empty h) @ cache_control_line @ CRLF]\<rparr>)
               else Inl BrokenPipeError)"
  by (simp add: NoCacheHandler_end_headers_def send_header_Cache_Control
      BaseHTTPRequestHandler_end_headers_eq bnd_def split: option.splits)

lemma cache_control_line_bytes:
  "cache_control_line = ''Cache-Control: no-cache, no-store, must-revalidate'' @ CRLF"
  by (simp add: cache_control_line_def header_line_def)




lemma sends_headers_update [simp]:
  "sends_headers (h\<lparr>headers_buffer := b\<rparr>) = sends_headers h"
  "sends_headers (h\<lparr>close_connection := c\<rparr>) = sends_headers h"
  "sends_headers (h\<lparr>wfile := w\<rparr>) = sends_headers h"
  by (simp_all add: sends_headers_def)

lemma buffer_or_empty_update [simp]:
  "buffer_or_empty (h\<lparr>headers_buffer := Some b\<rparr>) = b"
  "buffer_or_empty (h\<lparr>close_connection := c\<rparr>) = buffer_or_empty h"
  "buffer_or_empty (h\<lparr>wfile := w\<rparr>) = buffer_or_empty h"
  by (simp_all add: buffer_or_empty_def)



















lemma block_update [simp]:
  "block cls (h\<lparr>wfile := w\<rparr>) ls = block cls h ls"
  "block cls (h\<lparr>close_connection := c\<rparr>) ls = block cls h ls"
  "block cls (h\<lparr>command := cmd\<rparr>) ls = block cls h ls"
  "block cls (h\<lparr>request_version := v\<rparr>) ls = block cls h ls"
  by (simp_all add: block_def buffer_or_empty_def)

lemma block_parse_request_ok [simp]:
  "block cls (parse_request_ok r h) ls = block cls h ls"
  by (simp add: block_def buffer_or_empty_def parse_request_ok_def)

lemma parse_request_ok_facts:
  "same_request r (parse_request_ok r h)"
  "connected (parse_request_ok r h) = connected h"
  "wfile (parse_request_ok r h) = wfile h"
  "headers_buffer (parse_request_ok r h) = headers_buffer h"
  "request_version (parse_request_ok r h) = Some (rq_version r)"
  "sends_headers (parse_request_ok r h) = (rq_version r \<noteq> ''HTTP/0.9'')"
  "command (parse_request_ok r h) = Some (rq_command r)"
  by (simp_all add: parse_request_ok_def same_request_def sends_headers_def)





section \<open>Closed forms for a request of version HTTP/0.9\<close>




















lemma sent_append: "wfile h' = wfile h @ ws \<Longrightarrow> sent h' = sent h @ concat ws"
  by (simp add: sent_def)

section \<open>The example root, evaluated\<close>



lemma example_requests:
  "rq_command get_index = ''GET''" "rq_path get_index = ''/index.html''"
  "rq_version get_index = ''HTTP/1.1''"
  "rq_if_modified_since get_index = None" "rq_if_none_match get_index = None"
  "rq_command get_index_if_modified = ''GET''" "rq_path get_index_if_modified = ''/index.html''"
  "rq_version get_index_if_modified = ''HTTP/1.1''"
  "rq_if_modified_since get_index_if_modified = Some ''Tue, 03 Nov 2026 12:00:00 GMT''"
  "rq_if_none_match get_index_if_modified = None"
  "rq_command get_missing = ''GET''" "rq_path get_missing = ''/missing.txt''"
  "rq_version get_missing = ''HTTP/1.1''"
  "rq_command get_index_09 = ''GET''" "rq_path get_index_09 = ''/index.html''"
  "rq_version get_index_09 = ''HTTP/0.9''"
  "rq_if_modified_since get_index_09 = None" "rq_if_none_match get_index_09 = None"
  "rq_command get_missing_09 = ''GET''" "rq_path get_missing_09 = ''/missing.txt''"
  "rq_version get_missing_09 = ''HTTP/0.9''"
  "rq_command get_root_09 = ''GET''" "rq_path get_root_09 = ''/''"
  "rq_version get_root_09 = ''HTTP/0.9''"
  "rq_if_modified_since get_root_09 = None" "rq_if_none_match get_root_09 = None"
  by (simp_all add: get_index_def get_index_if_modified_def get_missing_def get_index_09_def
      get_missing_09_def get_root_09_def)

lemma new_handler_facts:
  "connected (new_handler c) = c" "wfile (new_handler c) = []"
  "buffer_or_empty (new_handler c) = []" "headers_buffer (new_handler c) = None"
  by (simp_all add: new_handler_def buffer_or_empty_def)


lemma str_nat_examples:
  "str_nat 200 = ''200''" "str_nat 304 = ''304''" "str_nat 404 = ''404''"
  "str_nat 11 = ''11''"
  by (simp_all add: str_nat.simps digit_char_def)



section \<open>The claims\<close>

subsection \<open>The override itself\<close>

text \<open>
  Claim C10. For a request whose request version is HTTP/0.9 the handler sends no header
  block at all, and in particular no \<^verbatim>\<open>Cache-Control\<close> header, because every
  header-sending method is a no-op for HTTP/0.9: with \<^verbatim>\<open>self.request_version\<close> equal to
  \<^verbatim>\<open>'HTTP/0.9'\<close>, the status line is not buffered, the \<^verbatim>\<open>send_header\<close> call of the
  override buffers nothing, and both the inherited \<^verbatim>\<open>end_headers\<close> and the override
  return the handler as it was, with nothing buffered and nothing written.
\<close>

theorem http09_sends_no_header_block:
  assumes "request_version h = Some ''HTTP/0.9''"
  shows "send_response_only E code message h = Inr h \<and>
         send_header ''Cache-Control'' ''no-cache, no-store, must-revalidate'' h = Inr h \<and>
         BaseHTTPRequestHandler_end_headers h = Inr h \<and>
         NoCacheHandler_end_headers h = Inr h"
  using assms
  by (simp add: send_response_only_def send_header_Cache_Control
      BaseHTTPRequestHandler_end_headers_eq NoCacheHandler_end_headers_eq)

theorem http09_sends_no_header_block_witness:
  "request_version (parse_request_ok get_index_09 (new_handler True)) = Some ''HTTP/0.9'' \<and>
   send_response_only example_env 200 None (parse_request_ok get_index_09 (new_handler True))
     = Inr (parse_request_ok get_index_09 (new_handler True)) \<and>
   NoCacheHandler_end_headers (parse_request_ok get_index_09 (new_handler True))
     = Inr (parse_request_ok get_index_09 (new_handler True)) \<and>
   wfile (parse_request_ok get_index_09 (new_handler True)) = [] \<and>
   headers_buffer (parse_request_ok get_index_09 (new_handler True)) = None"
  using http09_sends_no_header_block
          [of "parse_request_ok get_index_09 (new_handler True)" example_env 200 None]
  by (simp add: parse_request_ok_def get_index_09_def get_index_def new_handler_def)

text \<open>
  Claim C6, as the code has it. The claim says that the override never raises, in any
  state. It has no exception handler, so it raises whenever one of the two inherited
  methods it calls does. As amended: with \<^verbatim>\<open>request_version\<close> set and the connection
  open the override returns, also when no header buffer exists yet; it raises in exactly
  two cases, \<^verbatim>\<open>AttributeError\<close> when the handler has no \<^verbatim>\<open>request_version\<close> and
  \<^verbatim>\<open>BrokenPipeError\<close> when a header block is due and the peer has closed the connection;
  and the error it raises is the error of the inherited call, passed on as it is.
\<close>

theorem end_headers_raises_only_with_base:
  "(request_version h \<noteq> None \<and> connected h \<longrightarrow> (\<exists>h'. NoCacheHandler_end_headers h = Inr h')) \<and>
   (NoCacheHandler_end_headers h = Inl e \<longleftrightarrow>
      (request_version h = None \<and> e = AttributeError) \<or>
      (\<exists>v. request_version h = Some v \<and> v \<noteq> ''HTTP/0.9'' \<and> \<not> connected h
           \<and> e = BrokenPipeError)) \<and>
   (NoCacheHandler_end_headers h = Inl e \<longrightarrow>
      send_header ''Cache-Control'' ''no-cache, no-store, must-revalidate'' h = Inl e \<or>
      (\<exists>h1. send_header ''Cache-Control'' ''no-cache, no-store, must-revalidate'' h = Inr h1
            \<and> BaseHTTPRequestHandler_end_headers h1 = Inl e))"
proof (intro conjI)
  show "request_version h \<noteq> None \<and> connected h \<longrightarrow> (\<exists>h'. NoCacheHandler_end_headers h = Inr h')"
    by (auto simp: NoCacheHandler_end_headers_eq)
  show "NoCacheHandler_end_headers h = Inl e \<longleftrightarrow>
      (request_version h = None \<and> e = AttributeError) \<or>
      (\<exists>v. request_version h = Some v \<and> v \<noteq> ''HTTP/0.9'' \<and> \<not> connected h
           \<and> e = BrokenPipeError)"
    by (auto simp: NoCacheHandler_end_headers_eq split: option.splits if_splits)
  show "NoCacheHandler_end_headers h = Inl e \<longrightarrow>
      send_header ''Cache-Control'' ''no-cache, no-store, must-revalidate'' h = Inl e \<or>
      (\<exists>h1. send_header ''Cache-Control'' ''no-cache, no-store, must-revalidate'' h = Inr h1
            \<and> BaseHTTPRequestHandler_end_headers h1 = Inl e)"
    by (auto simp: NoCacheHandler_end_headers_def bnd_def split: sum.splits)
qed

theorem end_headers_raises_only_with_base_witness:
  "request_version (new_handler True\<lparr>request_version := Some ''HTTP/1.1''\<rparr>) \<noteq> None \<and>
   connected (new_handler True\<lparr>request_version := Some ''HTTP/1.1''\<rparr>) \<and>
   headers_buffer (new_handler True\<lparr>request_version := Some ''HTTP/1.1''\<rparr>) = None \<and>
   (\<exists>h'. NoCacheHandler_end_headers (new_handler True\<lparr>request_version := Some ''HTTP/1.1''\<rparr>)
            = Inr h') \<and>
   NoCacheHandler_end_headers (new_handler True) = Inl AttributeError \<and>
   send_header ''Cache-Control'' ''no-cache, no-store, must-revalidate'' (new_handler True)
     = Inl AttributeError"
  using end_headers_raises_only_with_base
          [of "new_handler True\<lparr>request_version := Some ''HTTP/1.1''\<rparr>" AttributeError]
        end_headers_raises_only_with_base [of "new_handler True" AttributeError]
  by (simp add: new_handler_def send_header_Cache_Control)

text \<open>
  The counterexample to claim C6 as stated: a handler that has buffered the status line
  of a 200 response, on a connection that the peer has closed.
\<close>

theorem end_headers_raises_on_closed_connection:
  "NoCacheHandler_end_headers (example_handler False) = Inl BrokenPipeError"
  by (simp add: NoCacheHandler_end_headers_eq example_handler_def parse_request_ok_def
      new_handler_def get_index_def)

subsection \<open>The server\<close>



subsection \<open>Requests\<close>















subsection \<open>The header block\<close>

text \<open>
  Claim C4, as the code has it. The claim says that the override adds exactly one header
  field to each response; for a response to a request of version HTTP/0.9 it adds none.
  As amended: with \<^verbatim>\<open>request_version\<close> set and the connection open, the override
  writes the lines buffered so far, then the one line
  \<^verbatim>\<open>Cache-Control: no-cache, no-store, must-revalidate\<close>, then the blank line, where the
  inherited \<^verbatim>\<open>end_headers\<close> writes the lines buffered so far and the blank line; for
  version HTTP/0.9 both leave the handler as it is. No other header, such as
  \<^verbatim>\<open>Pragma\<close> or \<^verbatim>\<open>Expires\<close>, is added.
\<close>

theorem override_adds_cache_control_only:
  assumes "request_version h = Some v" "connected h"
  shows "NoCacheHandler_end_headers h =
           Inr (if v = ''HTTP/0.9'' then h
                else h\<lparr>headers_buffer := Some [],
                       wfile := wfile h @
                         [concat (buffer_or_empty h
                                    @ [''Cache-Control: no-cache, no-store, must-revalidate'' @ CRLF]
                                    @ [CRLF])]\<rparr>) \<and>
         BaseHTTPRequestHandler_end_headers (h\<lparr>headers_buffer := Some (buffer_or_empty h)\<rparr>) =
           Inr (if v = ''HTTP/0.9'' then h\<lparr>headers_buffer := Some (buffer_or_empty h)\<rparr>
                else h\<lparr>headers_buffer := Some [],
                       wfile := wfile h @ [concat (buffer_or_empty h @ [CRLF])]\<rparr>)"
  using assms
  by (simp add: NoCacheHandler_end_headers_eq BaseHTTPRequestHandler_end_headers_eq
      cache_control_line_bytes)

theorem override_adds_cache_control_only_witness:
  "request_version (example_handler True) = Some ''HTTP/1.1'' \<and>
   connected (example_handler True) \<and>
   buffer_or_empty (example_handler True) =
     [''HTTP/1.0 200 OK'' @ CRLF,
      ''Server: SimpleHTTP/0.6 Python/3.12.3'' @ CRLF,
      ''Date: Wed, 04 Nov 2026 09:00:00 GMT'' @ CRLF] \<and>
   NoCacheHandler_end_headers (example_handler True) =
     Inr ((example_handler True)
            \<lparr>headers_buffer := Some [],
             wfile := [''HTTP/1.0 200 OK'' @ CRLF
                       @ ''Server: SimpleHTTP/0.6 Python/3.12.3'' @ CRLF
                       @ ''Date: Wed, 04 Nov 2026 09:00:00 GMT'' @ CRLF
                       @ ''Cache-Control: no-cache, no-store, must-revalidate'' @ CRLF
                       @ CRLF]\<rparr>)"
proof -
  have a: "request_version (example_handler True) = Some ''HTTP/1.1''"
    by (simp add: example_handler_def parse_request_ok_def example_requests)
  have b: "connected (example_handler True)"
    by (simp add: example_handler_def parse_request_ok_def new_handler_facts)
  have c: "buffer_or_empty (example_handler True) =
             [''HTTP/1.0 200 OK'' @ CRLF,
              ''Server: SimpleHTTP/0.6 Python/3.12.3'' @ CRLF,
              ''Date: Wed, 04 Nov 2026 09:00:00 GMT'' @ CRLF]"
    by (simp add: example_handler_def parse_request_ok_def new_handler_def
        buffer_or_empty_def status_line_def protocol_version_def header_line_def
        str_nat_examples)
  have w: "wfile (example_handler True) = []"
    by (simp add: example_handler_def parse_request_ok_def new_handler_def)
  note r = override_adds_cache_control_only[OF a b, THEN conjunct1, unfolded c w]
  from r a b c show ?thesis by simp
qed

text \<open>
  The counterexample to claim C4 as stated: on the handler that holds the request
  \<^verbatim>\<open>GET /missing.txt\<close> of version HTTP/0.9 the override returns the handler as it was,
  with no header buffer and nothing written.
\<close>

theorem http09_override_adds_no_header:
  "NoCacheHandler_end_headers (parse_request_ok get_missing_09 (new_handler True))
     = Inr (parse_request_ok get_missing_09 (new_handler True)) \<and>
   headers_buffer (parse_request_ok get_missing_09 (new_handler True)) = None \<and>
   wfile (parse_request_ok get_missing_09 (new_handler True)) = []"
  by (simp add: NoCacheHandler_end_headers_eq parse_request_ok_facts example_requests
      new_handler_facts)



end
